theory Spec2Isabelle
  imports Main
begin

section \<open>Go strings (byte sequences) and the \<open>strings\<close> functions the code calls\<close>

text \<open>
  A Go string is a sequence of bytes; it is modelled as \<open>string\<close> (a list of 8-bit
  characters). Only the functions of package \<open>strings\<close> that the sources call are
  modelled, each for the way it is called there: every pattern and separator in the
  sources is a non-empty literal.
\<close>

definition HasPrefix :: "string \<Rightarrow> string \<Rightarrow> bool" where
  "HasPrefix s p = (take (length p) s = p)"

fun Contains :: "string \<Rightarrow> string \<Rightarrow> bool" where
  "Contains [] sub = (sub = [])"
| "Contains (c # cs) sub = (HasPrefix (c # cs) sub \<or> Contains cs sub)"

text \<open>
  \<open>strings.ReplaceAll s old new\<close>: the non-overlapping occurrences of \<open>old\<close>, found
  from the left, are replaced by \<open>new\<close>. (For an empty \<open>old\<close> Go inserts \<open>new\<close>
  around every rune; no call in the sources passes an empty pattern and the model
  leaves \<open>s\<close> as it is there.)
\<close>

function ReplaceAll :: "string \<Rightarrow> string \<Rightarrow> string \<Rightarrow> string" where
  "ReplaceAll [] old new = []"
| "ReplaceAll (c # cs) old new =
     (if old \<noteq> [] \<and> HasPrefix (c # cs) old
      then new @ ReplaceAll (drop (length old) (c # cs)) old new
      else c # ReplaceAll cs old new)"
  by pat_completeness auto
termination
  by (relation "measure (\<lambda>(s, old, new). length s)") auto

text \<open>
  \<open>strings.Split s sep\<close> for a non-empty separator: the pieces between the
  non-overlapping occurrences of \<open>sep\<close>, one more piece than occurrences.
\<close>

function Split :: "string \<Rightarrow> string \<Rightarrow> string list" where
  "Split [] sep = [[]]"
| "Split (c # cs) sep =
     (if sep \<noteq> [] \<and> HasPrefix (c # cs) sep
      then [] # Split (drop (length sep) (c # cs)) sep
      else (let r = Split cs sep in (c # hd r) # tl r))"
  by pat_completeness auto
termination
  by (relation "measure (\<lambda>(s, sep). length s)") auto

fun strings_Join :: "string list \<Rightarrow> string \<Rightarrow> string" where
  "strings_Join [] sep = []"
| "strings_Join [e] sep = e"
| "strings_Join (e # es) sep = e @ sep @ strings_Join es sep"

text \<open>
  \<open>strings.TrimSpace\<close> cuts the leading and the trailing white space, rune by rune,
  where white space is \<open>unicode.IsSpace\<close>: the six ASCII spaces, U+0085, U+00A0,
  U+1680, U+2000 to U+200A, U+2028, U+2029, U+202F, U+205F and U+3000. On bytes, a
  white-space rune stands at the front (at the back) of a string exactly when the
  string begins (ends) with the UTF-8 encoding of one: a byte sequence that is not valid
  UTF-8 decodes to the error rune, which is no space. \<open>spaceEncodings\<close> lists the
  encodings; \<open>leadingSpace\<close> and \<open>trailingSpace\<close> are the width in bytes of the
  white-space rune at that end, and 0 when there is none.
\<close>

definition spaceEncodings :: "string list" where
  "spaceEncodings =
     [[CHR 0x09], [CHR 0x0A], [CHR 0x0B], [CHR 0x0C], [CHR 0x0D], [CHR 0x20],
      [CHR 0xC2, CHR 0x85], [CHR 0xC2, CHR 0xA0],
      [CHR 0xE1, CHR 0x9A, CHR 0x80],
      [CHR 0xE2, CHR 0x80, CHR 0x80], [CHR 0xE2, CHR 0x80, CHR 0x81],
      [CHR 0xE2, CHR 0x80, CHR 0x82], [CHR 0xE2, CHR 0x80, CHR 0x83],
      [CHR 0xE2, CHR 0x80, CHR 0x84], [CHR 0xE2, CHR 0x80, CHR 0x85],
      [CHR 0xE2, CHR 0x80, CHR 0x86], [CHR 0xE2, CHR 0x80, CHR 0x87],
      [CHR 0xE2, CHR 0x80, CHR 0x88], [CHR 0xE2, CHR 0x80, CHR 0x89],
      [CHR 0xE2, CHR 0x80, CHR 0x8A],
      [CHR 0xE2, CHR 0x80, CHR 0xA8], [CHR 0xE2, CHR 0x80, CHR 0xA9],
      [CHR 0xE2, CHR 0x80, CHR 0xAF],
      [CHR 0xE2, CHR 0x81, CHR 0x9F],
      [CHR 0xE3, CHR 0x80, CHR 0x80]]"

definition HasSuffix :: "string \<Rightarrow> string \<Rightarrow> bool" where
  "HasSuffix s p = (length p \<le> length s \<and> drop (length s - length p) s = p)"

definition leadingSpace :: "string \<Rightarrow> nat" where
  "leadingSpace s =
     (case find (\<lambda>e. HasPrefix s e) spaceEncodings of None \<Rightarrow> 0 | Some e \<Rightarrow> length e)"

definition trailingSpace :: "string \<Rightarrow> nat" where
  "trailingSpace s =
     (case find (\<lambda>e. HasSuffix s e) spaceEncodings of None \<Rightarrow> 0 | Some e \<Rightarrow> length e)"

function TrimLeftSpace :: "string \<Rightarrow> string" where
  "TrimLeftSpace s =
     (if s \<noteq> [] \<and> 0 < leadingSpace s then TrimLeftSpace (drop (leadingSpace s) s) else s)"
  by pat_completeness auto
termination
  by (relation "measure length") auto

function TrimRightSpace :: "string \<Rightarrow> string" where
  "TrimRightSpace s =
     (if s \<noteq> [] \<and> 0 < trailingSpace s
      then TrimRightSpace (take (length s - trailingSpace s) s) else s)"
  by pat_completeness auto
termination
  by (relation "measure length") auto

declare TrimLeftSpace.simps [simp del]

declare TrimRightSpace.simps [simp del]

definition TrimSpace :: "string \<Rightarrow> string" where
  "TrimSpace s = TrimRightSpace (TrimLeftSpace s)"

definition TrimPrefix :: "string \<Rightarrow> string \<Rightarrow> string" where
  "TrimPrefix s p = (if HasPrefix s p then drop (length p) s else s)"

section \<open>Package \<open>path/filepath\<close> on Unix\<close>

text \<open>
  The separator is the slash and there is no volume name. \<open>Clean\<close> is Go's lexical
  cleaning: empty and \<open>.\<close> elements are dropped, a \<open>..\<close> removes the element before
  it, is dropped at the root and is kept at the front of a relative path; the empty
  result is \<open>.\<close>. \<open>clean_elems\<close> holds the elements written so far, last one first.
\<close>

definition IsAbs :: "string \<Rightarrow> bool" where
  "IsAbs path = HasPrefix path ''/''"

fun clean_elems :: "bool \<Rightarrow> string list \<Rightarrow> string list \<Rightarrow> string list" where
  "clean_elems rooted [] acc = rev acc"
| "clean_elems rooted (e # es) acc =
     (if e = [] \<or> e = ''.'' then clean_elems rooted es acc
      else if e = ''..'' then
        (case acc of
           [] \<Rightarrow> if rooted then clean_elems rooted es [] else clean_elems rooted es [''..'']
         | a # as \<Rightarrow> if a = ''..'' then clean_elems rooted es (''..'' # acc)
                     else clean_elems rooted es as)
      else clean_elems rooted es (e # acc))"

definition Clean :: "string \<Rightarrow> string" where
  "Clean path =
     (if path = [] then ''.''
      else
        let rooted = (hd path = CHR ''/'');
            body = strings_Join (clean_elems rooted (Split path ''/'') []) ''/''
        in if rooted then CHR ''/'' # body
           else if body = [] then ''.'' else body)"

text \<open>\<open>filepath.Join\<close>: leading empty elements are skipped, the rest joined and cleaned.\<close>

fun Join :: "string list \<Rightarrow> string" where
  "Join [] = []"
| "Join (e # es) = (if e = [] then Join es else Clean (strings_Join (e # es) ''/''))"

definition Dir :: "string \<Rightarrow> string" where
  "Dir path = Clean (rev (dropWhile (\<lambda>c. c \<noteq> CHR ''/'') (rev path)))"

definition Base :: "string \<Rightarrow> string" where
  "Base path =
     (if path = [] then ''.''
      else
        let stripped = rev (dropWhile (\<lambda>c. c = CHR ''/'') (rev path));
            last_elem = rev (takeWhile (\<lambda>c. c \<noteq> CHR ''/'') (rev stripped))
        in if last_elem = [] then ''/'' else last_elem)"

section \<open>What a call leaves the program: errors and the world outside\<close>

text \<open>
  Every Go function of the sources returns a value and an \<open>error\<close>; the model returns
  \<open>error + 'a\<close>, \<open>Inl\<close> for a non-nil error. The program reads the world through four
  doors only, which \<open>git_env\<close> holds as they answer during one invocation: the lookup of
  the git binary, the standard output (or failure) of git for an argument list, the
  home directory of the user, and the resolution of symbolic links.
\<close>

datatype error =
    LookPathError
  | ExitError int
  | IOError
  | HomeDirError
  | EvalSymlinksError
  | ParseError

record git_env =
  LookPath :: "error + string"
  RunGit :: "string list \<Rightarrow> error + string"
  UserHomeDir :: "error + string"
  EvalSymlinks :: "string \<Rightarrow> error + string"
  Getwd :: "string"

section \<open>exec.go\<close>

text \<open>A command is the path of the binary and its arguments; \<open>cmd_Output\<close> runs it.\<close>

definition gitCommand :: "git_env \<Rightarrow> string list \<Rightarrow> error + (string \<times> string list)" where
  "gitCommand env args =
     (case LookPath env of Inl err \<Rightarrow> Inl err | Inr gitPath \<Rightarrow> Inr (gitPath, args))"

definition cmd_Output :: "git_env \<Rightarrow> string \<times> string list \<Rightarrow> error + string" where
  "cmd_Output env cmd = RunGit env (snd cmd)"

section \<open>config.go\<close>

definition configKeyBaseDir :: string where "configKeyBaseDir = ''wt.basedir''"
definition configKeyCopyIgnored :: string where "configKeyCopyIgnored = ''wt.copyignored''"
definition configKeyCopyUntracked :: string where "configKeyCopyUntracked = ''wt.copyuntracked''"
definition configKeyCopyModified :: string where "configKeyCopyModified = ''wt.copymodified''"
definition configKeyNoCopy :: string where "configKeyNoCopy = ''wt.nocopy''"

record Config =
  BaseDir :: string
  CopyIgnored :: bool
  CopyUntracked :: bool
  CopyModified :: bool
  NoCopy :: "string list"

text \<open>
  \<open>GitConfig\<close>: all values of a key. Exit code 1 of \<open>git config\<close> (the key is not
  set) and an output that is empty after trimming both give no value and no error.
\<close>

definition GitConfig :: "git_env \<Rightarrow> string \<Rightarrow> error + string list" where
  "GitConfig env key =
     (case gitCommand env [''config'', ''--get-all'', key] of
        Inl err \<Rightarrow> Inl err
      | Inr cmd \<Rightarrow>
          (case cmd_Output env cmd of
             Inl err \<Rightarrow> (if err = ExitError 1 then Inr [] else Inl err)
           | Inr out \<Rightarrow>
               (let trimmed = TrimSpace out
                in if trimmed = [] then Inr [] else Inr (Split trimmed [CHR 0x0A]))))"

definition RepoRoot :: "git_env \<Rightarrow> error + string" where
  "RepoRoot env =
     (case gitCommand env [''rev-parse'', ''--show-toplevel''] of
        Inl err \<Rightarrow> Inl err
      | Inr cmd \<Rightarrow>
          (case cmd_Output env cmd of
             Inl err \<Rightarrow> Inl err
           | Inr out \<Rightarrow> Inr (TrimSpace out)))"

definition MainRepoRoot :: "git_env \<Rightarrow> error + string" where
  "MainRepoRoot env =
     (case gitCommand env [''rev-parse'', ''--git-common-dir''] of
        Inl err \<Rightarrow> Inl err
      | Inr cmd \<Rightarrow>
          (case cmd_Output env cmd of
             Inl err \<Rightarrow> Inl err
           | Inr out \<Rightarrow>
               (let gitCommonDir = TrimSpace out
                in if \<not> IsAbs gitCommonDir
                   then (case RepoRoot env of
                           Inl err \<Rightarrow> Inl err
                         | Inr repoRoot \<Rightarrow> Inr (Dir (Join [repoRoot, gitCommonDir])))
                   else Inr (Dir gitCommonDir))))"

definition RepoName :: "git_env \<Rightarrow> error + string" where
  "RepoName env =
     (case MainRepoRoot env of Inl err \<Rightarrow> Inl err | Inr root \<Rightarrow> Inr (Base root))"

text \<open>
  \<open>last_is_true\<close> is the expression \<open>len(val) > 0 && val[len(val)-1] == "true"\<close>
  that \<open>LoadConfig\<close> writes out for each of the three flags.
\<close>

definition last_is_true :: "string list \<Rightarrow> bool" where
  "last_is_true val = (val \<noteq> [] \<and> last val = ''true'')"

definition LoadConfig :: "git_env \<Rightarrow> error + Config" where
  "LoadConfig env =
     (case GitConfig env configKeyBaseDir of
        Inl err \<Rightarrow> Inl err
      | Inr baseDir \<Rightarrow>
     (case GitConfig env configKeyCopyIgnored of
        Inl err \<Rightarrow> Inl err
      | Inr ign \<Rightarrow>
     (case GitConfig env configKeyCopyUntracked of
        Inl err \<Rightarrow> Inl err
      | Inr untr \<Rightarrow>
     (case GitConfig env configKeyCopyModified of
        Inl err \<Rightarrow> Inl err
      | Inr modi \<Rightarrow>
     (case GitConfig env configKeyNoCopy of
        Inl err \<Rightarrow> Inl err
      | Inr noCopy \<Rightarrow>
          Inr \<lparr> BaseDir = (if baseDir = [] then ''../{gitroot}-wt'' else last baseDir),
                CopyIgnored = last_is_true ign,
                CopyUntracked = last_is_true untr,
                CopyModified = last_is_true modi,
                NoCopy = noCopy \<rparr>)))))"

definition expandTemplate :: "git_env \<Rightarrow> string \<Rightarrow> error + string" where
  "expandTemplate env s =
     (if Contains s ''{gitroot}''
      then (case RepoName env of
              Inl err \<Rightarrow> Inl err
            | Inr repoName \<Rightarrow> Inr (ReplaceAll s ''{gitroot}'' repoName))
      else Inr s)"

text \<open>
  \<open>ExpandPath\<close> may replace \<open>path\<close> (the \<open>~/\<close> case) before its second half, which
  is \<open>ExpandPath_resolve\<close>: an absolute path is cleaned, a relative one is joined to the
  root of the main repository.
\<close>

definition ExpandPath_resolve :: "git_env \<Rightarrow> string \<Rightarrow> error + string" where
  "ExpandPath_resolve env path =
     (if IsAbs path then Inr (Clean path)
      else (case MainRepoRoot env of
              Inl err \<Rightarrow> Inl err
            | Inr repoRoot \<Rightarrow> Inr (Clean (Join [repoRoot, path]))))"

definition ExpandPath :: "git_env \<Rightarrow> string \<Rightarrow> error + string" where
  "ExpandPath env path =
     (if HasPrefix path ''~/''
      then (case UserHomeDir env of
              Inl err \<Rightarrow> Inl err
            | Inr home \<Rightarrow> ExpandPath_resolve env (Join [home, drop 2 path]))
      else if path = ''~'' then UserHomeDir env
      else ExpandPath_resolve env path)"

definition ExpandBaseDir :: "git_env \<Rightarrow> string \<Rightarrow> error + string" where
  "ExpandBaseDir env baseDir =
     (case expandTemplate env baseDir of
        Inl err \<Rightarrow> Inl err
      | Inr expanded \<Rightarrow> ExpandPath env expanded)"

definition WorktreePathFor :: "git_env \<Rightarrow> string \<Rightarrow> string \<Rightarrow> error + string" where
  "WorktreePathFor env baseDir branch =
     (case ExpandBaseDir env baseDir of
        Inl err \<Rightarrow> Inl err
      | Inr expandedBaseDir \<Rightarrow> Inr (Join [expandedBaseDir, branch]))"

section \<open>The worktree listing\<close>

text \<open>
  Modelled from the spec: \<open>ListWorktrees\<close> and the record it returns. Their file
  (worktree.go) is not among the sources; the tests and \<open>DetectRepoContext\<close> only call
  them. The record has the four fields the tests and \<open>DetectRepoContext\<close> read. The
  parser follows section 4.1 of the spec: the output of \<open>git worktree list --porcelain\<close>
  is cut into lines, the lines into blocks at blank lines, and each block becomes one
  record; the recognised lines are the worktree path, the HEAD id, the branch ref, the
  \<open>bare\<close> marker and the \<open>detached\<close> marker, every other line is ignored. A failure of
  git is returned as it is; a block that does not begin with its worktree path is a
  \<open>ParseError\<close>. The head is cut to seven characters, the length the tests compare with.
\<close>

record Worktree =
  Path :: string
  Branch :: string
  Head :: string
  Bare :: bool

definition emptyWorktree :: Worktree where
  "emptyWorktree = \<lparr> Path = [], Branch = [], Head = [], Bare = False \<rparr>"

definition headAbbrevLen :: nat where
  "headAbbrevLen = 7"

definition parseLine :: "Worktree \<Rightarrow> string \<Rightarrow> Worktree" where
  "parseLine wt line =
     (if HasPrefix line ''worktree '' then wt\<lparr> Path := TrimPrefix line ''worktree '' \<rparr>
      else if HasPrefix line ''HEAD ''
        then wt\<lparr> Head := take headAbbrevLen (TrimPrefix line ''HEAD '') \<rparr>
      else if HasPrefix line ''branch ''
        then wt\<lparr> Branch := TrimPrefix (TrimPrefix line ''branch '') ''refs/heads/'' \<rparr>
      else if line = ''bare'' then wt\<lparr> Bare := True \<rparr>
      else if line = ''detached'' then wt\<lparr> Branch := [] \<rparr>
      else wt)"

text \<open>\<open>splitBlocks cur ls\<close>: the blocks of \<open>ls\<close>, \<open>cur\<close> being the block read so far, reversed.\<close>

fun splitBlocks :: "string list \<Rightarrow> string list \<Rightarrow> string list list" where
  "splitBlocks cur [] = (if cur = [] then [] else [rev cur])"
| "splitBlocks cur (l # ls) =
     (if l = [] then (if cur = [] then splitBlocks [] ls else rev cur # splitBlocks [] ls)
      else splitBlocks (l # cur) ls)"

definition parseBlock :: "string list \<Rightarrow> error + Worktree" where
  "parseBlock block =
     (case block of
        [] \<Rightarrow> Inl ParseError
      | l # ls \<Rightarrow>
          if HasPrefix l ''worktree '' then Inr (foldl parseLine emptyWorktree block)
          else Inl ParseError)"

fun parseBlocks :: "string list list \<Rightarrow> error + Worktree list" where
  "parseBlocks [] = Inr []"
| "parseBlocks (b # bs) =
     (case parseBlock b of
        Inl err \<Rightarrow> Inl err
      | Inr wt \<Rightarrow> (case parseBlocks bs of Inl err \<Rightarrow> Inl err | Inr wts \<Rightarrow> Inr (wt # wts)))"

definition listingBlocks :: "string \<Rightarrow> string list list" where
  "listingBlocks out = splitBlocks [] (Split out [CHR 0x0A])"

text \<open>
  The output of git is well formed when no block after the first one carries the
  \<open>bare\<close> marker: git prints the marker for the main entry of a bare repository only,
  and prints that entry first.
\<close>

definition hasBareMarker :: "string list \<Rightarrow> bool" where
  "hasBareMarker block = (''bare'' \<in> set block)"

definition wellFormedListing :: "string \<Rightarrow> bool" where
  "wellFormedListing out = list_all (\<lambda>block. \<not> hasBareMarker block) (tl (listingBlocks out))"

definition ListWorktrees :: "git_env \<Rightarrow> error + Worktree list" where
  "ListWorktrees env =
     (case gitCommand env [''worktree'', ''list'', ''--porcelain''] of
        Inl err \<Rightarrow> Inl err
      | Inr cmd \<Rightarrow>
          (case cmd_Output env cmd of
             Inl err \<Rightarrow> Inl err
           | Inr out \<Rightarrow> parseBlocks (listingBlocks out)))"

section \<open>The worktree locator\<close>

text \<open>
  Modelled from the spec: \<open>FindWorktreeByBranch\<close> and \<open>FindWorktreeByBranchOrDir\<close> (also
  of worktree.go), after section 4.3 of the spec. A branch matches a record that is not
  bare and whose \<open>Branch\<close> is the name. A token shaped like a path (absolute, \<open>.\<close>,
  \<open>..\<close>, or holding a separator) is made absolute against the current directory, its
  symbolic links are resolved, and it matches a record, bare or not, whose resolved
  \<open>Path\<close> is the same. No match is no record and no error.
\<close>

definition FindWorktreeByBranch :: "git_env \<Rightarrow> string \<Rightarrow> error + Worktree option" where
  "FindWorktreeByBranch env branch =
     (case ListWorktrees env of
        Inl err \<Rightarrow> Inl err
      | Inr worktrees \<Rightarrow> Inr (find (\<lambda>wt. \<not> Bare wt \<and> Branch wt = branch) worktrees))"

definition isPathShaped :: "string \<Rightarrow> bool" where
  "isPathShaped query =
     (IsAbs query \<or> query = ''.'' \<or> query = ''..'' \<or> CHR ''/'' \<in> set query)"

definition Abs :: "git_env \<Rightarrow> string \<Rightarrow> string" where
  "Abs env path = (if IsAbs path then Clean path else Join [Getwd env, path])"

definition evalSymlinksOr :: "git_env \<Rightarrow> string \<Rightarrow> string" where
  "evalSymlinksOr env path =
     (case EvalSymlinks env path of Inl err \<Rightarrow> path | Inr resolved \<Rightarrow> resolved)"

definition FindWorktreeByBranchOrDir :: "git_env \<Rightarrow> string \<Rightarrow> error + Worktree option" where
  "FindWorktreeByBranchOrDir env query =
     (case ListWorktrees env of
        Inl err \<Rightarrow> Inl err
      | Inr worktrees \<Rightarrow>
          (case find (\<lambda>wt. \<not> Bare wt \<and> Branch wt = query) worktrees of
             Some wt \<Rightarrow> Inr (Some wt)
           | None \<Rightarrow>
               if isPathShaped query
               then Inr (find (\<lambda>wt. evalSymlinksOr env (Path wt) =
                                      evalSymlinksOr env (Abs env query)) worktrees)
               else Inr None))"

section \<open>Removing a worktree\<close>

text \<open>
  Modelled from the spec: \<open>RemoveWorktree\<close> (of worktree.go) and the state of the
  repository it changes, after section 4.4 of the spec. The state is what git owns: the
  registered worktrees, the paths of those that hold uncommitted or untracked changes,
  and the local branches. A safe removal is refused for a worktree with such changes, a
  forced one is not; a path that is no registered worktree is refused either way. A
  removal unregisters the worktree and does nothing else.
\<close>

record repo_state =
  st_worktrees :: "Worktree list"
  st_dirty :: "string list"
  st_branches :: "string list"

definition RemoveWorktree :: "repo_state \<Rightarrow> string \<Rightarrow> bool \<Rightarrow> error + repo_state" where
  "RemoveWorktree st path force =
     (if path \<notin> set (map Path (st_worktrees st)) then Inl (ExitError 128)
      else if path \<in> set (st_dirty st) \<and> \<not> force then Inl (ExitError 128)
      else Inr (st\<lparr> st_worktrees := filter (\<lambda>wt. Path wt \<noteq> path) (st_worktrees st),
                     st_dirty := removeAll path (st_dirty st) \<rparr>))"

section \<open>repo\_context.go\<close>

text \<open>
  \<open>DetectRepoContext\<close> as the source has it; of \<open>ListWorktrees\<close> it uses the result
  only. The two fields of \<open>RepoContext\<close> are \<open>Bare\<close> and \<open>Worktree\<close> in the source;
  they carry a prefix here, \<open>Bare\<close> being a field of the worktree record as well.
\<close>

record RepoContext =
  ctxBare :: bool
  ctxWorktree :: bool

definition DetectRepoContext :: "git_env \<Rightarrow> error + RepoContext" where
  "DetectRepoContext env =
     (case ListWorktrees env of
        Inl err \<Rightarrow> Inl err
      | Inr worktrees \<Rightarrow>
          (let bare = (worktrees \<noteq> [] \<and> Bare (hd worktrees))
           in if bare
              then (case RepoRoot env of
                      Inl err \<Rightarrow> Inr \<lparr> ctxBare = True, ctxWorktree = False \<rparr>
                    | Inr toplevel \<Rightarrow> Inr \<lparr> ctxBare = True, ctxWorktree = True \<rparr>)
              else (case RepoRoot env of
                      Inl err \<Rightarrow> Inl err
                    | Inr toplevel \<Rightarrow>
                        if worktrees \<noteq> []
                        then (let mainPath = evalSymlinksOr env (Path (hd worktrees));
                                  currentPath = evalSymlinksOr env toplevel
                              in Inr \<lparr> ctxBare = False, ctxWorktree = (mainPath \<noteq> currentPath) \<rparr>)
                        else Inr \<lparr> ctxBare = False, ctxWorktree = False \<rparr>)))"

definition IsBareRepository :: "git_env \<Rightarrow> error + bool" where
  "IsBareRepository env =
     (case DetectRepoContext env of Inl err \<Rightarrow> Inl err | Inr rc \<Rightarrow> Inr (ctxBare rc))"

section \<open>ref.go\<close>

definition NormalizeBranchName :: "string \<Rightarrow> string" where
  "NormalizeBranchName name = ReplaceAll name '':'' ''/''"

section \<open>Example invocations\<close>

text \<open>
  Concrete worlds for evaluating the functions: a repository at \<open>/home/u/repo\<close> with a
  linked worktree at \<open>/home/u/repo-wt/feature\<close>, and a bare repository at
  \<open>/home/u/bare.git\<close> with a linked worktree at \<open>/home/u/bare-wt/feature\<close>, each
  entered at its root and in its linked worktree. \<open>exampleEnv\<close> answers the three
  queries of the sources and \<open>git config --get-all\<close> from a table of raw outputs; a
  key that is not in the table makes git exit with code 1.
\<close>

definition nl :: string where
  "nl = [CHR 0x0A]"

definition exampleEnv ::
  "string \<Rightarrow> (error + string) \<Rightarrow> string \<Rightarrow> string \<Rightarrow> (string \<times> string) list \<Rightarrow> git_env" where
  "exampleEnv listing toplevel commonDir cwd config =
     \<lparr> LookPath = Inr ''/usr/bin/git'',
       RunGit = (\<lambda>args.
         if args = [''worktree'', ''list'', ''--porcelain''] then Inr listing
         else if args = [''rev-parse'', ''--show-toplevel''] then toplevel
         else if args = [''rev-parse'', ''--git-common-dir''] then Inr commonDir
         else if length args = 3 \<and> take 2 args = [''config'', ''--get-all'']
           then (case map_of config (args ! 2) of
                   Some out \<Rightarrow> Inr out
                 | None \<Rightarrow> Inl (ExitError 1))
         else Inl (ExitError 129)),
       UserHomeDir = Inr ''/home/u'',
       EvalSymlinks = (\<lambda>p. Inr p),
       Getwd = cwd \<rparr>"

definition normalListing :: string where
  "normalListing =
     ''worktree /home/u/repo'' @ nl @
     ''HEAD 0123456789abcdef0123456789abcdef01234567'' @ nl @
     ''branch refs/heads/main'' @ nl @ nl @
     ''worktree /home/u/repo-wt/feature'' @ nl @
     ''HEAD 89abcdef0123456789abcdef0123456789abcdef'' @ nl @
     ''branch refs/heads/feature'' @ nl @ nl"

definition bareListing :: string where
  "bareListing =
     ''worktree /home/u/bare.git'' @ nl @
     ''HEAD 0123456789abcdef0123456789abcdef01234567'' @ nl @
     ''branch refs/heads/main'' @ nl @
     ''bare'' @ nl @ nl @
     ''worktree /home/u/bare-wt/feature'' @ nl @
     ''HEAD 89abcdef0123456789abcdef0123456789abcdef'' @ nl @
     ''branch refs/heads/feature'' @ nl @ nl"

definition bareOnlyListing :: string where
  "bareOnlyListing =
     ''worktree /home/u/bare.git'' @ nl @
     ''HEAD 0123456789abcdef0123456789abcdef01234567'' @ nl @
     ''branch refs/heads/main'' @ nl @
     ''bare'' @ nl @ nl"

definition envMain :: git_env where
  "envMain = exampleEnv normalListing (Inr (''/home/u/repo'' @ nl)) (''.git'' @ nl)
               ''/home/u/repo'' []"

definition envLinked :: git_env where
  "envLinked = exampleEnv normalListing (Inr (''/home/u/repo-wt/feature'' @ nl))
                 (''/home/u/repo/.git'' @ nl) ''/home/u/repo-wt/feature'' []"


definition envBareLinked :: git_env where
  "envBareLinked = exampleEnv bareListing (Inr (''/home/u/bare-wt/feature'' @ nl))
                     (''/home/u/bare.git'' @ nl) ''/home/u/bare-wt/feature'' []"

definition envBareOnly :: git_env where
  "envBareOnly = exampleEnv bareOnlyListing (Inl (ExitError 128)) (''.'' @ nl)
                   ''/home/u/bare.git'' []"

text \<open>
  The repository of \<open>envMain\<close> entered in the directory \<open>sub\<close> of its main working
  tree: git prints the common directory relative to the current directory.
\<close>

definition envSub :: git_env where
  "envSub = exampleEnv normalListing (Inr (''/home/u/repo'' @ nl)) (''../.git'' @ nl)
              ''/home/u/repo/sub'' []"

text \<open>A normal repository in which \<open>rev-parse --show-toplevel\<close> fails.\<close>

definition envNoToplevel :: git_env where
  "envNoToplevel = exampleEnv normalListing (Inl (ExitError 128)) (''.git'' @ nl)
                     ''/home/u/repo/.git'' []"

text \<open>The repository of \<open>envMain\<close> with two values of some keys in its configuration.\<close>

definition envConfigured :: git_env where
  "envConfigured = exampleEnv normalListing (Inr (''/home/u/repo'' @ nl)) (''.git'' @ nl)
                     ''/home/u/repo''
                     [(''wt.basedir'', ''../first'' @ nl @ ''../second'' @ nl),
                      (''wt.copyignored'', ''false'' @ nl @ ''true'' @ nl),
                      (''wt.copyuntracked'', ''true'' @ nl @ ''false'' @ nl)]"

text \<open>A repository whose directory name holds the template token.\<close>

definition envTokenName :: git_env where
  "envTokenName = exampleEnv [] (Inr (''/home/u/x{gitroot}'' @ nl)) (''.git'' @ nl)
                    ''/home/u/x{gitroot}'' []"

text \<open>
  A state of the repository of \<open>envMain\<close>: the linked worktree holds an untracked file.
\<close>

definition exampleState :: repo_state where
  "exampleState =
     \<lparr> st_worktrees =
         [\<lparr> Path = ''/home/u/repo'', Branch = ''main'', Head = ''0123456'', Bare = False \<rparr>,
          \<lparr> Path = ''/home/u/repo-wt/feature'', Branch = ''feature'', Head = ''89abcde'',
             Bare = False \<rparr>],
       st_dirty = [''/home/u/repo-wt/feature''],
       st_branches = [''main'', ''feature''] \<rparr>"

section \<open>Properties\<close>

lemma ReplaceAll_one_char:
  "ReplaceAll s [a] [b] = map (\<lambda>c. if c = a then b else c) s"
  by (induction s) (simp_all add: HasPrefix_def)

text \<open>
  C10. \<open>NormalizeBranchName s\<close> is \<open>s\<close> with every colon replaced by a slash and
  every other byte kept in place; so a name without a colon is returned as it is, the
  result holds no colon, and normalising twice is normalising once.
\<close>

theorem NormalizeBranchName_replaces_colons:
  "NormalizeBranchName s = map (\<lambda>c. if c = CHR '':'' then CHR ''/'' else c) s
   \<and> (CHR '':'' \<notin> set s \<longrightarrow> NormalizeBranchName s = s)
   \<and> CHR '':'' \<notin> set (NormalizeBranchName s)
   \<and> NormalizeBranchName (NormalizeBranchName s) = NormalizeBranchName s"
proof -
  let ?f = "\<lambda>c. if c = CHR '':'' then CHR ''/'' else c"
  have eq: "\<And>t. NormalizeBranchName t = map ?f t"
    by (simp add: NormalizeBranchName_def ReplaceAll_one_char)
  have unchanged: "map ?f t = t" if "CHR '':'' \<notin> set t" for t
    using that by (induction t) auto
  have nocolon: "CHR '':'' \<notin> set (map ?f s)"
    by (induction s) auto
  show ?thesis
    using unchanged [of s] unchanged [OF nocolon] nocolon by (simp add: eq)
qed

theorem NormalizeBranchName_replaces_colons_witness:
  "NormalizeBranchName ''a:b:c'' = ''a/b/c''
   \<and> CHR '':'' \<notin> set ''someone/main''
   \<and> NormalizeBranchName ''someone/main'' = ''someone/main''
   \<and> NormalizeBranchName (NormalizeBranchName ''someone:main'') = ''someone/main''"
  using NormalizeBranchName_replaces_colons [of "''a:b:c''"]
    NormalizeBranchName_replaces_colons [of "''someone/main''"]
    NormalizeBranchName_replaces_colons [of "''someone:main''"]
  by simp

text \<open>
  C9 (as amended). A string without the token \<open>{gitroot}\<close> is returned unchanged by
  \<open>expandTemplate\<close>, with no error and without asking git for anything; so expanding
  a result of \<open>expandTemplate\<close> a second time changes nothing whenever that result
  holds no token.
\<close>

theorem expandTemplate_without_token:
  "(\<not> Contains s ''{gitroot}'' \<longrightarrow> expandTemplate env s = Inr s)
   \<and> (expandTemplate env s = Inr t \<and> \<not> Contains t ''{gitroot}''
        \<longrightarrow> expandTemplate env t = Inr t)"
  by (simp add: expandTemplate_def)

theorem expandTemplate_without_token_witness:
  "\<not> Contains ''/tmp/worktrees'' ''{gitroot}''
   \<and> expandTemplate envMain ''/tmp/worktrees'' = Inr ''/tmp/worktrees''
   \<and> expandTemplate envMain ''../{gitroot}-wt'' = Inr ''../repo-wt''
   \<and> \<not> Contains ''../repo-wt'' ''{gitroot}''
   \<and> expandTemplate envMain ''../repo-wt'' = Inr ''../repo-wt''"
proof -
  have a: "\<not> Contains ''/tmp/worktrees'' ''{gitroot}''" by code_simp
  have b: "expandTemplate envMain ''../{gitroot}-wt'' = Inr ''../repo-wt''" by code_simp
  have c: "\<not> Contains ''../repo-wt'' ''{gitroot}''" by code_simp
  show ?thesis
    using a b c
      expandTemplate_without_token [of "''/tmp/worktrees''" envMain]
      expandTemplate_without_token [of "''../{gitroot}-wt''" envMain "''../repo-wt''"]
    by simp
qed

text \<open>
  The claim as the spec words it, that a second expansion never changes a result, fails
  where the name of the repository brings the token back: in a repository whose
  directory is named \<open>x{gitroot}\<close> the default pattern expands to a string that still
  holds the token, and expanding that string changes it again.
\<close>

theorem expandTemplate_twice_counterexample:
  "expandTemplate envTokenName ''../{gitroot}-wt'' = Inr ''../x{gitroot}-wt''
   \<and> expandTemplate envTokenName ''../x{gitroot}-wt'' = Inr ''../xx{gitroot}-wt''
   \<and> expandTemplate envTokenName ''../x{gitroot}-wt'' \<noteq> Inr ''../x{gitroot}-wt''"
  by code_simp

text \<open>
  C7. When git answers all five queries of \<open>LoadConfig\<close>, the call succeeds, and each
  scalar key is read from the values \<open>GitConfig\<close> returned for it: \<open>BaseDir\<close> is the
  last of its values and the default \<open>../{gitroot}-wt\<close> when there is none; each of
  the three flags is whether the last value of its key is \<open>true\<close>, and \<open>false\<close> when
  there is none. The values of a key are the lines of the trimmed output of
  \<open>git config --get-all\<close>, in the order git prints them.
\<close>

theorem LoadConfig_last_value_or_default:
  assumes "GitConfig env configKeyBaseDir = Inr base"
    and "GitConfig env configKeyCopyIgnored = Inr ign"
    and "GitConfig env configKeyCopyUntracked = Inr untr"
    and "GitConfig env configKeyCopyModified = Inr modi"
    and "GitConfig env configKeyNoCopy = Inr nocopy"
  shows "\<exists>cfg. LoadConfig env = Inr cfg
    \<and> (base = [] \<longrightarrow> BaseDir cfg = ''../{gitroot}-wt'')
    \<and> (base \<noteq> [] \<longrightarrow> BaseDir cfg = last base)
    \<and> (ign = [] \<longrightarrow> CopyIgnored cfg = False)
    \<and> (ign \<noteq> [] \<longrightarrow> CopyIgnored cfg = (last ign = ''true''))
    \<and> (untr = [] \<longrightarrow> CopyUntracked cfg = False)
    \<and> (untr \<noteq> [] \<longrightarrow> CopyUntracked cfg = (last untr = ''true''))
    \<and> (modi = [] \<longrightarrow> CopyModified cfg = False)
    \<and> (modi \<noteq> [] \<longrightarrow> CopyModified cfg = (last modi = ''true''))"
proof -
  let ?cfg = "\<lparr> BaseDir = (if base = [] then ''../{gitroot}-wt'' else last base),
                 CopyIgnored = last_is_true ign,
                 CopyUntracked = last_is_true untr,
                 CopyModified = last_is_true modi,
                 NoCopy = nocopy \<rparr>"
  have "LoadConfig env = Inr ?cfg"
    using assms by (simp add: LoadConfig_def)
  then show ?thesis
    by (simp add: last_is_true_def)
qed

theorem LoadConfig_last_value_or_default_witness:
  "GitConfig envConfigured configKeyBaseDir = Inr [''../first'', ''../second'']
   \<and> GitConfig envConfigured configKeyCopyIgnored = Inr [''false'', ''true'']
   \<and> GitConfig envConfigured configKeyCopyUntracked = Inr [''true'', ''false'']
   \<and> GitConfig envConfigured configKeyCopyModified = Inr []
   \<and> GitConfig envConfigured configKeyNoCopy = Inr []
   \<and> (\<exists>cfg. LoadConfig envConfigured = Inr cfg
        \<and> BaseDir cfg = ''../second'' \<and> CopyIgnored cfg \<and> \<not> CopyUntracked cfg
        \<and> \<not> CopyModified cfg)
   \<and> GitConfig envMain configKeyBaseDir = Inr []
   \<and> (\<exists>cfg. LoadConfig envMain = Inr cfg
        \<and> BaseDir cfg = ''../{gitroot}-wt'' \<and> \<not> CopyIgnored cfg \<and> \<not> CopyUntracked cfg
        \<and> \<not> CopyModified cfg)"
proof -
  have c1: "GitConfig envConfigured configKeyBaseDir = Inr [''../first'', ''../second'']"
    by code_simp
  have c2: "GitConfig envConfigured configKeyCopyIgnored = Inr [''false'', ''true'']"
    by code_simp
  have c3: "GitConfig envConfigured configKeyCopyUntracked = Inr [''true'', ''false'']"
    by code_simp
  have c4: "GitConfig envConfigured configKeyCopyModified = Inr []"
    by code_simp
  have c5: "GitConfig envConfigured configKeyNoCopy = Inr []"
    by code_simp
  have m1: "GitConfig envMain configKeyBaseDir = Inr []" by code_simp
  have m2: "GitConfig envMain configKeyCopyIgnored = Inr []" by code_simp
  have m3: "GitConfig envMain configKeyCopyUntracked = Inr []" by code_simp
  have m4: "GitConfig envMain configKeyCopyModified = Inr []" by code_simp
  have m5: "GitConfig envMain configKeyNoCopy = Inr []" by code_simp
  show ?thesis
    using LoadConfig_last_value_or_default [OF c1 c2 c3 c4 c5]
      LoadConfig_last_value_or_default [OF m1 m2 m3 m4 m5] c1 c2 c3 c4 c5 m1
    by simp
qed

text \<open>
  \<open>ExpandBaseDir\<close> reads the world through \<open>MainRepoRoot\<close> and the home directory,
  and through nothing else: two invocations for which \<open>MainRepoRoot\<close> returns the same
  expand every pattern to the same result, and a relative path (one that is neither
  \<open>~\<close>, nor under \<open>~/\<close>, nor absolute) is joined to what \<open>MainRepoRoot\<close> returns.
\<close>

lemma ExpandBaseDir_reads_MainRepoRoot:
  "(MainRepoRoot env1 = MainRepoRoot env2 \<and> UserHomeDir env1 = UserHomeDir env2
      \<longrightarrow> ExpandBaseDir env1 pat = ExpandBaseDir env2 pat)
   \<and> (\<not> HasPrefix path ''~/'' \<and> path \<noteq> ''~'' \<and> \<not> IsAbs path \<and> MainRepoRoot env1 = Inr root
      \<longrightarrow> ExpandPath env1 path = Inr (Clean (Join [root, path])))"
proof -
  have resolve: "ExpandPath_resolve env1 p = ExpandPath_resolve env2 p"
    if "MainRepoRoot env1 = MainRepoRoot env2" for p
    using that by (simp add: ExpandPath_resolve_def)
  have path_eq: "ExpandPath env1 p = ExpandPath env2 p"
    if "MainRepoRoot env1 = MainRepoRoot env2" "UserHomeDir env1 = UserHomeDir env2" for p
    using that resolve by (simp add: ExpandPath_def split: sum.splits)
  have tmpl: "expandTemplate env1 p = expandTemplate env2 p"
    if "MainRepoRoot env1 = MainRepoRoot env2" for p
    using that by (simp add: expandTemplate_def RepoName_def)
  have first: "ExpandBaseDir env1 pat = ExpandBaseDir env2 pat"
    if "MainRepoRoot env1 = MainRepoRoot env2" "UserHomeDir env1 = UserHomeDir env2"
    using that tmpl path_eq by (simp add: ExpandBaseDir_def split: sum.splits)
  have second: "ExpandPath env1 path = Inr (Clean (Join [root, path]))"
    if "\<not> HasPrefix path ''~/''" "path \<noteq> ''~''" "\<not> IsAbs path" "MainRepoRoot env1 = Inr root"
    using that by (simp add: ExpandPath_def ExpandPath_resolve_def)
  show ?thesis
    using first second by blast
qed

text \<open>
  C8. The claim does not hold of the code. \<open>MainRepoRoot\<close> joins a relative answer of
  \<open>git rev-parse --git-common-dir\<close> to the toplevel of the working tree, and git gives
  that answer relative to the current directory. At the root of the main working tree
  (answer \<open>.git\<close>) and in a linked worktree (an absolute answer) the main repository
  root comes out, and the default pattern expands to \<open>/home/u/repo-wt\<close> in both. In
  the directory \<open>sub\<close> of the main working tree the answer is \<open>../.git\<close>, the toplevel
  is still \<open>/home/u/repo\<close>, \<open>MainRepoRoot\<close> returns \<open>/home/u\<close>, and the same pattern
  expands to \<open>/home/u-wt\<close>: two invocations in different worktrees of one repository,
  with one pattern, and two base directories.
\<close>

theorem ExpandBaseDir_differs_in_subdirectory:
  "ExpandBaseDir envMain ''../{gitroot}-wt'' = Inr ''/home/u/repo-wt''
   \<and> ExpandBaseDir envLinked ''../{gitroot}-wt'' = Inr ''/home/u/repo-wt''
   \<and> RepoRoot envSub = Inr ''/home/u/repo''
   \<and> MainRepoRoot envSub = Inr ''/home/u''
   \<and> ExpandBaseDir envSub ''../{gitroot}-wt'' = Inr ''/home/u-wt''
   \<and> ExpandBaseDir envSub ''../{gitroot}-wt'' \<noteq> ExpandBaseDir envLinked ''../{gitroot}-wt''"
proof -
  have m: "ExpandBaseDir envMain ''../{gitroot}-wt'' = Inr ''/home/u/repo-wt''" by code_simp
  have l: "ExpandBaseDir envLinked ''../{gitroot}-wt'' = Inr ''/home/u/repo-wt''" by code_simp
  have t: "RepoRoot envSub = Inr ''/home/u/repo''" by code_simp
  have r: "MainRepoRoot envSub = Inr ''/home/u''" by code_simp
  have e: "ExpandBaseDir envSub ''../{gitroot}-wt'' = Inr ''/home/u-wt''" by code_simp
  show ?thesis
    using m l t r e by simp
qed



text \<open>
  C4. When the resolution of the toplevel fails, \<open>DetectRepoContext\<close> swallows the
  failure exactly when the first record of the listing is bare: then it returns
  \<open>{Bare = true, Worktree = false}\<close> and no error; when the first record is not bare
  (or the listing is empty) it returns the error of the resolution.
\<close>

theorem DetectRepoContext_toplevel_failure:
  assumes "ListWorktrees env = Inr worktrees"
    and "RepoRoot env = Inl err"
  shows "(worktrees \<noteq> [] \<and> Bare (hd worktrees)
          \<longrightarrow> DetectRepoContext env = Inr \<lparr> ctxBare = True, ctxWorktree = False \<rparr>)
       \<and> (\<not> (worktrees \<noteq> [] \<and> Bare (hd worktrees))
          \<longrightarrow> DetectRepoContext env = Inl err)"
  using assms by (simp add: DetectRepoContext_def Let_def)

theorem DetectRepoContext_toplevel_failure_witness:
  "RepoRoot envBareOnly = Inl (ExitError 128)
   \<and> DetectRepoContext envBareOnly = Inr \<lparr> ctxBare = True, ctxWorktree = False \<rparr>
   \<and> RepoRoot envNoToplevel = Inl (ExitError 128)
   \<and> DetectRepoContext envNoToplevel = Inl (ExitError 128)"
proof -
  let ?main = "\<lparr> Path = ''/home/u/repo'', Branch = ''main'', Head = ''0123456'', Bare = False \<rparr>"
  let ?feature = "\<lparr> Path = ''/home/u/repo-wt/feature'', Branch = ''feature'',
                     Head = ''89abcde'', Bare = False \<rparr>"
  let ?bare = "\<lparr> Path = ''/home/u/bare.git'', Branch = ''main'', Head = ''0123456'', Bare = True \<rparr>"
  have l1: "ListWorktrees envBareOnly = Inr [?bare]" by code_simp
  have l2: "ListWorktrees envNoToplevel = Inr [?main, ?feature]" by code_simp
  have r1: "RepoRoot envBareOnly = Inl (ExitError 128)" by code_simp
  have r2: "RepoRoot envNoToplevel = Inl (ExitError 128)" by code_simp
  show ?thesis
    using DetectRepoContext_toplevel_failure [OF l1 r1]
      DetectRepoContext_toplevel_failure [OF l2 r2] r1 r2
    by simp
qed

lemma parseLine_Bare: "Bare (parseLine wt line) = (Bare wt \<or> line = ''bare'')"
  by (simp add: parseLine_def HasPrefix_def)

lemma foldl_parseLine_Bare:
  "Bare (foldl parseLine wt block) = (Bare wt \<or> hasBareMarker block)"
  by (induction block arbitrary: wt) (auto simp: parseLine_Bare hasBareMarker_def)

lemma parseBlock_Bare:
  assumes "parseBlock block = Inr wt"
  shows "Bare wt = hasBareMarker block"
proof -
  from assms have "wt = foldl parseLine emptyWorktree block"
    by (cases block) (auto simp: parseBlock_def split: if_splits simp del: foldl_Cons)
  then show ?thesis
    by (simp add: foldl_parseLine_Bare emptyWorktree_def)
qed

lemma parseBlocks_Bare:
  "parseBlocks blocks = Inr wts \<Longrightarrow> map Bare wts = map hasBareMarker blocks"
proof (induction blocks arbitrary: wts)
  case Nil
  then show ?case by simp
next
  case (Cons b bs)
  from Cons.prems obtain wt rest where
    b: "parseBlock b = Inr wt" and bs: "parseBlocks bs = Inr rest" and wts: "wts = wt # rest"
    by (auto split: sum.splits)
  from Cons.IH [OF bs] parseBlock_Bare [OF b] wts show ?case by simp
qed

lemma ListWorktrees_parses_output:
  assumes "LookPath env = Inr git"
    and "RunGit env [''worktree'', ''list'', ''--porcelain''] = Inr out"
  shows "ListWorktrees env = parseBlocks (listingBlocks out)"
  using assms by (simp add: ListWorktrees_def gitCommand_def cmd_Output_def)

text \<open>
  C1. When the output of git is well formed and \<open>ListWorktrees\<close> returns a listing,
  a record of the listing that has \<open>Bare\<close> set is the first record; so at most one
  record has it.
\<close>

theorem ListWorktrees_bare_only_first:
  assumes "LookPath env = Inr git"
    and "RunGit env [''worktree'', ''list'', ''--porcelain''] = Inr out"
    and "wellFormedListing out"
    and "ListWorktrees env = Inr wts"
  shows "(\<forall>i < length wts. Bare (wts ! i) \<longrightarrow> i = 0) \<and> length (filter Bare wts) \<le> 1"
proof -
  have parsed: "parseBlocks (listingBlocks out) = Inr wts"
    using assms(1,2,4) ListWorktrees_parses_output by simp
  have flags: "map Bare wts = map hasBareMarker (listingBlocks out)"
    by (rule parseBlocks_Bare [OF parsed])
  have "map Bare (tl wts) = map hasBareMarker (tl (listingBlocks out))"
    using flags by (simp add: map_tl)
  moreover have "\<forall>b \<in> set (tl (listingBlocks out)). \<not> hasBareMarker b"
    using assms(3) by (simp add: wellFormedListing_def list_all_iff)
  ultimately have "\<forall>b \<in> set (map Bare (tl wts)). \<not> b"
    by simp
  then have rest: "\<forall>wt \<in> set (tl wts). \<not> Bare wt"
    by auto
  show ?thesis
  proof (cases wts)
    case Nil
    then show ?thesis by simp
  next
    case (Cons w ws)
    with rest have ws: "\<forall>wt \<in> set ws. \<not> Bare wt" by simp
    then have "filter Bare ws = []" by (simp add: filter_empty_conv)
    moreover have "i = 0" if "i < length wts" "Bare (wts ! i)" for i
    proof (rule ccontr)
      assume "i \<noteq> 0"
      then obtain j where j: "i = Suc j" by (cases i) auto
      with that Cons have "j < length ws" "Bare (ws ! j)" by simp_all
      with ws show False using nth_mem by blast
    qed
    ultimately show ?thesis using Cons by auto
  qed
qed

theorem ListWorktrees_bare_only_first_witness:
  "wellFormedListing bareListing
   \<and> ListWorktrees envBareLinked =
       Inr [\<lparr> Path = ''/home/u/bare.git'', Branch = ''main'', Head = ''0123456'', Bare = True \<rparr>,
            \<lparr> Path = ''/home/u/bare-wt/feature'', Branch = ''feature'', Head = ''89abcde'',
               Bare = False \<rparr>]
   \<and> length (filter Bare
       [\<lparr> Path = ''/home/u/bare.git'', Branch = ''main'', Head = ''0123456'', Bare = True \<rparr>,
        \<lparr> Path = ''/home/u/bare-wt/feature'', Branch = ''feature'', Head = ''89abcde'',
           Bare = False \<rparr>]) \<le> 1"
proof -
  have g: "LookPath envBareLinked = Inr ''/usr/bin/git''" by code_simp
  have out: "RunGit envBareLinked [''worktree'', ''list'', ''--porcelain''] = Inr bareListing"
    by code_simp
  have wf: "wellFormedListing bareListing" by code_simp
  have l: "ListWorktrees envBareLinked =
       Inr [\<lparr> Path = ''/home/u/bare.git'', Branch = ''main'', Head = ''0123456'', Bare = True \<rparr>,
            \<lparr> Path = ''/home/u/bare-wt/feature'', Branch = ''feature'', Head = ''89abcde'',
               Bare = False \<rparr>]"
    by code_simp
  show ?thesis
    using ListWorktrees_bare_only_first [OF g out wf l] wf l by simp
qed

text \<open>
  C2. A record that \<open>FindWorktreeByBranch\<close> returns is not bare (and has the branch
  asked for); when the listing holds the bare record only, asking for the branch of
  that record returns no record and no error.
\<close>

theorem FindWorktreeByBranch_never_bare:
  "(FindWorktreeByBranch env name = Inr (Some wt) \<longrightarrow> \<not> Bare wt \<and> Branch wt = name)
   \<and> (ListWorktrees env = Inr [b] \<and> Bare b
        \<longrightarrow> FindWorktreeByBranch env (Branch b) = Inr None)"
proof -
  have "\<not> Bare wt \<and> Branch wt = name" if "FindWorktreeByBranch env name = Inr (Some wt)"
  proof -
    from that obtain wts where
      "find (\<lambda>w. \<not> Bare w \<and> Branch w = name) wts = Some wt"
      by (auto simp: FindWorktreeByBranch_def split: sum.splits)
    then show ?thesis by (auto simp: find_Some_iff)
  qed
  moreover have "FindWorktreeByBranch env (Branch b) = Inr None"
    if "ListWorktrees env = Inr [b]" "Bare b"
    using that by (simp add: FindWorktreeByBranch_def)
  ultimately show ?thesis by blast
qed

theorem FindWorktreeByBranch_never_bare_witness:
  "ListWorktrees envBareOnly =
     Inr [\<lparr> Path = ''/home/u/bare.git'', Branch = ''main'', Head = ''0123456'', Bare = True \<rparr>]
   \<and> FindWorktreeByBranch envBareOnly ''main'' = Inr None
   \<and> FindWorktreeByBranch envBareLinked ''feature'' =
       Inr (Some \<lparr> Path = ''/home/u/bare-wt/feature'', Branch = ''feature'',
                    Head = ''89abcde'', Bare = False \<rparr>)"
proof -
  let ?bare = "\<lparr> Path = ''/home/u/bare.git'', Branch = ''main'', Head = ''0123456'', Bare = True \<rparr>"
  let ?feature = "\<lparr> Path = ''/home/u/bare-wt/feature'', Branch = ''feature'',
                     Head = ''89abcde'', Bare = False \<rparr>"
  have l: "ListWorktrees envBareOnly = Inr [?bare]" by code_simp
  have f: "FindWorktreeByBranch envBareLinked ''feature'' = Inr (Some ?feature)" by code_simp
  show ?thesis
    using FindWorktreeByBranch_never_bare [of envBareOnly "''main''" ?feature ?bare]
      FindWorktreeByBranch_never_bare [of envBareLinked "''feature''" ?feature ?bare] l f
    by simp
qed

text \<open>
  C6. With the listing read, a query that is the branch of no record that is not bare
  makes \<open>FindWorktreeByBranch\<close> return no record and no error; when the query, if it
  is shaped like a path, is also the place of no record, \<open>FindWorktreeByBranchOrDir\<close>
  returns no record and no error.
\<close>

theorem Find_no_match_is_not_an_error:
  assumes "ListWorktrees env = Inr wts"
    and "\<forall>wt \<in> set wts. Bare wt \<or> Branch wt \<noteq> query"
  shows "FindWorktreeByBranch env query = Inr None
    \<and> ((isPathShaped query \<longrightarrow>
          (\<forall>wt \<in> set wts. evalSymlinksOr env (Path wt) \<noteq> evalSymlinksOr env (Abs env query)))
        \<longrightarrow> FindWorktreeByBranchOrDir env query = Inr None)"
proof -
  have none: "find (\<lambda>wt. \<not> Bare wt \<and> Branch wt = query) wts = None"
    using assms(2) by (auto simp: find_None_iff)
  then have "FindWorktreeByBranch env query = Inr None"
    using assms(1) by (simp add: FindWorktreeByBranch_def)
  moreover have "FindWorktreeByBranchOrDir env query = Inr None"
    if nowhere: "isPathShaped query \<longrightarrow>
          (\<forall>wt \<in> set wts. evalSymlinksOr env (Path wt) \<noteq> evalSymlinksOr env (Abs env query))"
  proof -
    have "find (\<lambda>wt. evalSymlinksOr env (Path wt) = evalSymlinksOr env (Abs env query)) wts = None"
      if "isPathShaped query"
      using that nowhere by (auto simp: find_None_iff)
    then show ?thesis
      using assms(1) none by (simp add: FindWorktreeByBranchOrDir_def)
  qed
  ultimately show ?thesis by blast
qed

theorem Find_no_match_is_not_an_error_witness:
  "FindWorktreeByBranch envMain ''no-such-branch'' = Inr None
   \<and> FindWorktreeByBranchOrDir envMain ''no-such-branch'' = Inr None
   \<and> isPathShaped ''../elsewhere''
   \<and> FindWorktreeByBranch envMain ''../elsewhere'' = Inr None
   \<and> FindWorktreeByBranchOrDir envMain ''../elsewhere'' = Inr None"
proof -
  let ?wts = "[\<lparr> Path = ''/home/u/repo'', Branch = ''main'', Head = ''0123456'', Bare = False \<rparr>,
               \<lparr> Path = ''/home/u/repo-wt/feature'', Branch = ''feature'',
                  Head = ''89abcde'', Bare = False \<rparr>]"
  have l: "ListWorktrees envMain = Inr ?wts" by code_simp
  have b1: "\<forall>wt \<in> set ?wts. Bare wt \<or> Branch wt \<noteq> ''no-such-branch''" by simp
  have b2: "\<forall>wt \<in> set ?wts. Bare wt \<or> Branch wt \<noteq> ''../elsewhere''" by simp
  have s1: "\<not> isPathShaped ''no-such-branch''" by code_simp
  have s2: "isPathShaped ''../elsewhere''" by code_simp
  have a: "Abs envMain ''../elsewhere'' = ''/home/u/elsewhere''" by code_simp
  have e: "\<And>p. evalSymlinksOr envMain p = p"
    by (simp add: evalSymlinksOr_def envMain_def exampleEnv_def)
  have d2: "\<forall>wt \<in> set ?wts.
              evalSymlinksOr envMain (Path wt) \<noteq> evalSymlinksOr envMain (Abs envMain ''../elsewhere'')"
    by (simp add: a e)
  show ?thesis
    using Find_no_match_is_not_an_error [OF l b1] Find_no_match_is_not_an_error [OF l b2]
      s1 s2 d2
    by simp
qed

text \<open>
  C5. A removal that succeeds, safe or forced, leaves the local branches as they were:
  the branch that was checked out in the removed worktree still exists.
\<close>

theorem RemoveWorktree_keeps_branches:
  assumes "RemoveWorktree st path force = Inr st'"
  shows "st_branches st' = st_branches st
    \<and> (\<forall>wt \<in> set (st_worktrees st).
          Path wt = path \<and> Branch wt \<in> set (st_branches st) \<longrightarrow> Branch wt \<in> set (st_branches st'))
    \<and> path \<notin> set (map Path (st_worktrees st'))"
proof -
  from assms have st': "st' = st\<lparr> st_worktrees := filter (\<lambda>wt. Path wt \<noteq> path) (st_worktrees st),
                                  st_dirty := removeAll path (st_dirty st) \<rparr>"
    by (auto simp: RemoveWorktree_def split: if_splits)
  then show ?thesis by auto
qed

theorem RemoveWorktree_keeps_branches_witness:
  "RemoveWorktree exampleState ''/home/u/repo-wt/feature'' False = Inl (ExitError 128)
   \<and> (\<exists>st'. RemoveWorktree exampleState ''/home/u/repo-wt/feature'' True = Inr st'
        \<and> st_branches st' = [''main'', ''feature'']
        \<and> map Path (st_worktrees st') = [''/home/u/repo''])"
proof -
  let ?st' = "\<lparr> st_worktrees =
                  [\<lparr> Path = ''/home/u/repo'', Branch = ''main'', Head = ''0123456'', Bare = False \<rparr>],
                st_dirty = [], st_branches = [''main'', ''feature''] \<rparr>"
  have refused: "RemoveWorktree exampleState ''/home/u/repo-wt/feature'' False = Inl (ExitError 128)"
    by code_simp
  have forced: "RemoveWorktree exampleState ''/home/u/repo-wt/feature'' True = Inr ?st'"
    by code_simp
  have b: "st_branches exampleState = [''main'', ''feature'']" by code_simp
  show ?thesis
    using RemoveWorktree_keeps_branches [OF forced] refused forced b by simp
qed

end
